theory Spec2Isabelle
  imports Main "HOL-Library.Sublist"
begin

section \<open>The request router of the extension provider (Proxy.ts)\<close>

text \<open>
  \<^verbatim>\<open>Proxy.start(namada, approvedOriginsStore)\<close> registers one asynchronous listener on the
  window's message channel. The listener filters the inbound message, checks the origin
  against the approved origins read from the store (except for two method names), looks
  the method up on the \<^verbatim>\<open>namada\<close> object, awaits it, and posts one response.

  The embedding follows the listener line by line. One delivery of a message is run to
  its end: the two suspension points (the store's \<^verbatim>\<open>get\<close> and the call of the method)
  are modelled by the outcome of the awaited promise, which is a parameter. Everything the
  listener does to the outside is recorded, in order, in a list of effects.
  \<^verbatim>\<open>window.postMessage\<close> copies its message with the structured clone algorithm and
  throws when the message cannot be copied; both posts of the listener can throw so.
\<close>

subsection \<open>Values\<close>

text \<open>
  The values that travel over the channel are untyped, so they are modelled by a datatype
  of plain data: what the structured clone algorithm accepts and delivers. Numbers are
  restricted to integers (no NaN, no fractions); an \<^verbatim>\<open>Error\<close> object is kept apart from
  plain objects and carries its message; a \<^verbatim>\<open>DOMException\<close> carries its name.
\<close>

datatype jsval =
    JUndefined
  | JNull
  | JBool bool
  | JNum int
  | JStr string
  | JArr "jsval list"
  | JObj "(string \<times> jsval) list"
  | JError string
  | JDOMException string

text \<open>The truth value JavaScript gives to \<^verbatim>\<open>!v\<close> is the negation of this.\<close>

fun truthy :: "jsval \<Rightarrow> bool" where
  "truthy JUndefined = False"
| "truthy JNull = False"
| "truthy (JBool b) = b"
| "truthy (JNum n) = (n \<noteq> 0)"
| "truthy (JStr s) = (s \<noteq> [])"
| "truthy (JArr xs) = True"
| "truthy (JObj kvs) = True"
| "truthy (JError m) = True"
| "truthy (JDOMException n) = True"

text \<open>
  A value inside the extension, such as what a method of the capability object resolves
  with or throws: plain data, or a value that the structured clone algorithm refuses (a
  function, a symbol, an object that holds one), kept with a description.
\<close>

datatype jsany = Plain jsval | Uncloneable string

text \<open>The structured clone algorithm: the copy, or \<open>None\<close> where it throws.\<close>

fun structuredClone :: "jsany \<Rightarrow> jsval option" where
  "structuredClone (Plain v) = Some v"
| "structuredClone (Uncloneable d) = None"

text \<open>The exception that \<^verbatim>\<open>window.postMessage\<close> throws where the clone fails.\<close>

definition DataCloneError :: jsval where
  "DataCloneError = JDOMException ''DataCloneError''"

subsection \<open>Promises\<close>

text \<open>
  What \<^verbatim>\<open>await p\<close> does with a promise: it continues with the value, it throws the
  reason, or it never continues.
\<close>

datatype 'a settled = Resolves 'a | Rejects jsany | NeverSettles

subsection \<open>The capability object\<close>

text \<open>
  \<^verbatim>\<open>namada[method]\<close> is a property read by name. The property is a plain value
  (\<^verbatim>\<open>undefined\<close> when there is no such property) or a function; a function takes the
  \<^verbatim>\<open>args\<close> of the request as its one argument and may resolve with, or throw, any value
  of the extension. A function that throws before it returns
  a promise and one that returns a rejected promise are both \<open>Rejects\<close>: the
  \<^verbatim>\<open>try\<close> block catches both the same way.
\<close>

datatype property = PValue jsval | PFunction "jsval \<Rightarrow> jsany settled"

type_synonym Namada = "string \<Rightarrow> property"

fun truthy_property :: "property \<Rightarrow> bool" where
  "truthy_property (PValue v) = truthy v"
| "truthy_property (PFunction f) = True"

fun typeof :: "property \<Rightarrow> string" where
  "typeof (PFunction f) = ''function''"
| "typeof (PValue JUndefined) = ''undefined''"
| "typeof (PValue JNull) = ''object''"
| "typeof (PValue (JBool b)) = ''boolean''"
| "typeof (PValue (JNum n)) = ''number''"
| "typeof (PValue (JStr s)) = ''string''"
| "typeof (PValue (JArr xs)) = ''object''"
| "typeof (PValue (JObj kvs)) = ''object''"
| "typeof (PValue (JError m)) = ''object''"
| "typeof (PValue (JDOMException n)) = ''object''"

text \<open>
  Calling a property. The listener calls only what it has found to be a function; calling
  anything else is the TypeError of the language, written out for totality.
\<close>

fun call :: "property \<Rightarrow> jsval \<Rightarrow> jsany settled" where
  "call (PFunction f) args = f args"
| "call (PValue v) args = Rejects (Plain (JError ''is not a function''))"

subsection \<open>The approved origins store\<close>

text \<open>
  \<^verbatim>\<open>KVStore<ApprovedOriginsStore>.get(key)\<close> returns a promise of a list of origins or of
  \<^verbatim>\<open>undefined\<close> (\<open>None\<close>). The store is the state of the outside world at the moment
  of the read; the listener never writes to it.
\<close>

type_synonym ApprovedOriginsStore = "string list"

type_synonym KVStore = "string \<Rightarrow> ApprovedOriginsStore option settled"

subsection \<open>Messages\<close>

text \<open>
  Modelled from the spec: the enum \<^verbatim>\<open>ProxyRequestTypes\<close> is declared in
  \<^verbatim>\<open>./types\<close>, which is not among the sources; the wire framing of the specification
  gives the tag of a request as "request".
\<close>

definition ProxyRequestTypes_Request :: string where
  "ProxyRequestTypes_Request = ''request''"

text \<open>
  Modelled from the spec: the other member of the same enum; the wire framing of the
  specification gives the tag of a response as "response".
\<close>

definition ProxyRequestTypes_Response :: string where
  "ProxyRequestTypes_Response = ''response''"

text \<open>
  The body of an inbound message, \<^verbatim>\<open>e.data\<close>. The declared type is
  \<^verbatim>\<open>ProxyRequest\<close>, with a string for \<^verbatim>\<open>method\<close>; the channel is shared, so the body
  may also be \<^verbatim>\<open>null\<close> or \<^verbatim>\<open>undefined\<close> (\<open>None\<close> in \<open>data\<close>), and its
  \<^verbatim>\<open>type\<close> may be any value, \<open>JUndefined\<close> when the field is missing. The
  \<^verbatim>\<open>id\<close> and the \<^verbatim>\<open>args\<close> are never inspected and may be any value.
\<close>

record ProxyRequest =
  rq_type :: jsval
  rq_id :: jsval
  rq_method :: string
  rq_args :: jsval

record MessageEvent =
  data :: "ProxyRequest option"
  origin :: string

text \<open>
  The \<^verbatim>\<open>result\<close> of a response is an object literal with the key \<^verbatim>\<open>return\<close> or the
  key \<^verbatim>\<open>error\<close>. A key that the literal does not have is \<open>None\<close>; a key that it
  has is \<open>Some v\<close>, where \<open>v\<close> may be any value, \<open>JUndefined\<close> included. The
  type of the values is a parameter: the literal that the listener builds holds a value
  of the extension (\<open>jsany\<close>), the message that arrives on the channel holds its copy
  (\<open>jsval\<close>).
\<close>

record 'v ProxyResult =
  res_return :: "'v option"
  res_error :: "'v option"

record 'v ProxyRequestResponse =
  rs_type :: string
  rs_id :: jsval
  rs_result :: "'v ProxyResult"

subsection \<open>Effects and completion of the listener\<close>

text \<open>
  The listener's calls to the outside, in the order in which it makes them:
  \<^verbatim>\<open>approvedOriginsStore.get(key)\<close>, \<^verbatim>\<open>namada[method](args)\<close> and
  \<^verbatim>\<open>Proxy.postMessage(response)\<close>. \<open>PostMessage\<close> is a post that went out: it
  holds the message as the channel delivers it. A post that throws leaves no effect.
\<close>

datatype effect =
    StoreGet string
  | Invoke string jsval
  | PostMessage "jsval ProxyRequestResponse"

text \<open>
  The promise that the asynchronous listener returns: fulfilled (the function returned),
  rejected (an exception left the function), or pending for ever.
\<close>

datatype completion = Returned | Thrown jsany | Pending

type_synonym run = "effect list \<times> completion"

fun responses :: "effect list \<Rightarrow> jsval ProxyRequestResponse list" where
  "responses [] = []"
| "responses (PostMessage r # es) = r # responses es"
| "responses (StoreGet k # es) = responses es"
| "responses (Invoke m a # es) = responses es"

fun store_reads :: "effect list \<Rightarrow> string list" where
  "store_reads [] = []"
| "store_reads (StoreGet k # es) = k # store_reads es"
| "store_reads (PostMessage r # es) = store_reads es"
| "store_reads (Invoke m a # es) = store_reads es"

fun invocations :: "effect list \<Rightarrow> (string \<times> jsval) list" where
  "invocations [] = []"
| "invocations (Invoke m a # es) = (m, a) # invocations es"
| "invocations (StoreGet k # es) = invocations es"
| "invocations (PostMessage r # es) = invocations es"

subsection \<open>The listener\<close>

text \<open>The two object literals of lines 38-44 and 48-54.\<close>

definition return_response :: "ProxyRequest \<Rightarrow> 'v \<Rightarrow> 'v ProxyRequestResponse" where
  "return_response message result =
     \<lparr> rs_type = ProxyRequestTypes_Response,
       rs_id = rq_id message,
       rs_result = \<lparr> res_return = Some result, res_error = None \<rparr> \<rparr>"

definition error_response :: "ProxyRequest \<Rightarrow> 'v \<Rightarrow> 'v ProxyRequestResponse" where
  "error_response message e =
     \<lparr> rs_type = ProxyRequestTypes_Response,
       rs_id = rq_id message,
       rs_result = \<lparr> res_return = None, res_error = Some e \<rparr> \<rparr>"

text \<open>
  Lines 65-67, \<^verbatim>\<open>Proxy.postMessage\<close>: \<^verbatim>\<open>window.postMessage(message, origin)\<close>. The
  message is copied by the structured clone algorithm. The tag is a string and the id
  came in over the channel, so both copy; a key of the result that is absent stays
  absent, and one that is present copies if its value does. Where the copy fails nothing
  is sent and \<open>DataCloneError\<close> is thrown (\<open>Inl\<close>).
\<close>

fun clone_key :: "jsany option \<Rightarrow> jsval option option" where
  "clone_key None = Some None"
| "clone_key (Some v) =
     (case structuredClone v of None \<Rightarrow> None | Some d \<Rightarrow> Some (Some d))"

definition Proxy_postMessage :: "jsany ProxyRequestResponse \<Rightarrow> jsany + effect" where
  "Proxy_postMessage message =
     (case (clone_key (res_return (rs_result message)),
            clone_key (res_error (rs_result message))) of
        (Some r, Some e) \<Rightarrow>
          Inr (PostMessage \<lparr> rs_type = rs_type message, rs_id = rs_id message,
                             rs_result = \<lparr> res_return = r, res_error = e \<rparr> \<rparr>)
      | _ \<Rightarrow> Inl (Plain DataCloneError))"

text \<open>
  Lines 47-57, the \<^verbatim>\<open>catch\<close> block: it posts the caught value as it is. Its post is
  not guarded: where it throws, the exception leaves the listener.
\<close>

definition catch_block :: "ProxyRequest \<Rightarrow> jsany \<Rightarrow> run" where
  "catch_block message e =
     (case Proxy_postMessage (error_response message e) of
        Inr posted \<Rightarrow> ([posted], Returned)
      | Inl thrown \<Rightarrow> ([], Thrown thrown))"

text \<open>
  Lines 32-57, the \<^verbatim>\<open>try\<close> statement. A property that is falsy or not a function
  throws \<^verbatim>\<open>new Error(`${message.method} not found!`)\<close> into the \<^verbatim>\<open>catch\<close> block;
  otherwise the method is called and awaited. The post of line 46 is inside the
  \<^verbatim>\<open>try\<close> block, so what it throws is caught as well.
\<close>

definition dispatch :: "Namada \<Rightarrow> ProxyRequest \<Rightarrow> run" where
  "dispatch namada message =
     (let method = rq_method message; args = rq_args message in
      if \<not> truthy_property (namada method) \<or> typeof (namada method) \<noteq> ''function''
      then catch_block message (Plain (JError (rq_method message @ '' not found!'')))
      else (case call (namada method) args of
              Resolves result \<Rightarrow>
                (case Proxy_postMessage (return_response message result) of
                   Inr posted \<Rightarrow> ([Invoke method args, posted], Returned)
                 | Inl thrown \<Rightarrow>
                     (Invoke method args # fst (catch_block message thrown),
                      snd (catch_block message thrown)))
            | Rejects e \<Rightarrow>
                (Invoke method args # fst (catch_block message e),
                 snd (catch_block message e))
            | NeverSettles \<Rightarrow> ([Invoke method args], Pending)))"

text \<open>
  Lines 15-58, the listener. The key \<^verbatim>\<open>APPROVED_ORIGINS_KEY\<close> is imported from a
  module that is not among the sources and is a parameter here.
\<close>

definition listener :: "string \<Rightarrow> Namada \<Rightarrow> KVStore \<Rightarrow> MessageEvent \<Rightarrow> run" where
  "listener APPROVED_ORIGINS_KEY namada approvedOriginsStore e =
     (case data e of
        None \<Rightarrow> ([], Returned)
      | Some message \<Rightarrow>
          if rq_type message \<noteq> JStr ProxyRequestTypes_Request then ([], Returned)
          else
            let method = rq_method message in
            if method \<noteq> ''connect'' \<and> method \<noteq> ''isConnected''
            then (case approvedOriginsStore APPROVED_ORIGINS_KEY of
                    Rejects err \<Rightarrow> ([StoreGet APPROVED_ORIGINS_KEY], Thrown err)
                  | NeverSettles \<Rightarrow> ([StoreGet APPROVED_ORIGINS_KEY], Pending)
                  | Resolves stored \<Rightarrow>
                      let approvedOrigins = (case stored of None \<Rightarrow> [] | Some xs \<Rightarrow> xs) in
                      if origin e \<notin> set approvedOrigins
                      then ([StoreGet APPROVED_ORIGINS_KEY], Returned)
                      else (StoreGet APPROVED_ORIGINS_KEY # fst (dispatch namada message),
                            snd (dispatch namada message)))
            else dispatch namada message)"

subsection \<open>Deliveries over time\<close>

text \<open>
  The store is written by the approval flow of the extension while the page is live. A
  schedule interleaves such writes with deliveries of messages; each delivery runs the
  listener against the store as it is at that moment.
\<close>

datatype step =
    Deliver MessageEvent
  | StoreSet string "ApprovedOriginsStore option settled"

fun deliveries :: "string \<Rightarrow> Namada \<Rightarrow> KVStore \<Rightarrow> step list \<Rightarrow> run list" where
  "deliveries key namada store [] = []"
| "deliveries key namada store (Deliver e # steps) =
     listener key namada store e # deliveries key namada store steps"
| "deliveries key namada store (StoreSet k v # steps) =
     deliveries key namada (store(k := v)) steps"

subsection \<open>Hypotheses of the properties\<close>

text \<open>A request: a body that is present and tagged as a request.\<close>

definition is_request :: "MessageEvent \<Rightarrow> ProxyRequest \<Rightarrow> bool" where
  "is_request e message \<longleftrightarrow>
     data e = Some message \<and> rq_type message = JStr ProxyRequestTypes_Request"

text \<open>The two method names that line 24 exempts from the check of the origin.\<close>

definition bootstrap :: "string \<Rightarrow> bool" where
  "bootstrap method \<longleftrightarrow> method = ''connect'' \<or> method = ''isConnected''"

text \<open>The origin is in the set of approved origins that the store holds under the key.\<close>

definition approved :: "KVStore \<Rightarrow> string \<Rightarrow> string \<Rightarrow> bool" where
  "approved store key orig \<longleftrightarrow>
     (case store key of Resolves (Some xs) \<Rightarrow> orig \<in> set xs | _ \<Rightarrow> False)"

subsection \<open>Concrete inputs\<close>

text \<open>
  A capability object, a store and requests on which the properties below are run. The
  object has a method that resolves, one that resolves with \<^verbatim>\<open>undefined\<close>, one that
  rejects, one that resolves with a function, one that rejects with an object that holds
  a function, a property that is not a function, and nothing else.
\<close>

definition demo_namada :: Namada where
  "demo_namada method =
     (if method = ''queryBalance''
        then PFunction (\<lambda>args. Resolves (Plain (JArr [JArr [JStr ''tok1'', JStr ''100'']])))
      else if method = ''connect'' then PFunction (\<lambda>args. Resolves (Plain JUndefined))
      else if method = ''signTx''
        then PFunction (\<lambda>args. Rejects (Plain (JStr ''rejected by user'')))
      else if method = ''subscribe''
        then PFunction (\<lambda>args. Resolves (Uncloneable ''unsubscribe function''))
      else if method = ''signArbitrary''
        then PFunction (\<lambda>args. Rejects (Uncloneable ''error object with a retry function''))
      else if method = ''version'' then PValue (JStr ''0.1.0'')
      else PValue JUndefined)"

definition demo_store :: KVStore where
  "demo_store key =
     (if key = ''approved-origins'' then Resolves (Some [''https://app.example''])
      else Resolves None)"

definition demo_request :: "string \<Rightarrow> string \<Rightarrow> jsval \<Rightarrow> ProxyRequest" where
  "demo_request ident method args =
     \<lparr> rq_type = JStr ProxyRequestTypes_Request, rq_id = JStr ident, rq_method = method, rq_args = args \<rparr>"

definition demo_event :: "string \<Rightarrow> ProxyRequest \<Rightarrow> MessageEvent" where
  "demo_event orig message = \<lparr> data = Some message, origin = orig \<rparr>"

section \<open>Properties\<close>

subsection \<open>The paths through the listener\<close>

lemma typeof_value: "typeof (PValue v) \<noteq> ''function''"
  by (cases v) simp_all

lemma postMessage_return:
  "Proxy_postMessage (return_response message v) =
     (case structuredClone v of
        Some d \<Rightarrow> Inr (PostMessage (return_response message d))
      | None \<Rightarrow> Inl (Plain DataCloneError))"
  by (simp add: Proxy_postMessage_def return_response_def split: option.splits)

lemma postMessage_error:
  "Proxy_postMessage (error_response message v) =
     (case structuredClone v of
        Some d \<Rightarrow> Inr (PostMessage (error_response message d))
      | None \<Rightarrow> Inl (Plain DataCloneError))"
  by (simp add: Proxy_postMessage_def error_response_def split: option.splits)

lemma catch_block_plain:
  "catch_block message (Plain d) = ([PostMessage (error_response message d)], Returned)"
  by (simp add: catch_block_def postMessage_error)

lemma catch_block_uncloneable:
  "catch_block message (Uncloneable u) = ([], Thrown (Plain DataCloneError))"
  by (simp add: catch_block_def postMessage_error)

lemma dispatch_not_invocable:
  assumes "namada (rq_method message) = PValue v"
  shows "dispatch namada message =
           ([PostMessage (error_response message (JError (rq_method message @ '' not found!'')))],
            Returned)"
  using assms by (simp add: dispatch_def Let_def typeof_value catch_block_plain)

lemma dispatch_invocable:
  assumes "namada (rq_method message) = PFunction f"
  shows "dispatch namada message =
           (case f (rq_args message) of
              Resolves (Plain d) \<Rightarrow>
                ([Invoke (rq_method message) (rq_args message),
                  PostMessage (return_response message d)], Returned)
            | Resolves (Uncloneable u) \<Rightarrow>
                ([Invoke (rq_method message) (rq_args message),
                  PostMessage (error_response message DataCloneError)], Returned)
            | Rejects (Plain d) \<Rightarrow>
                ([Invoke (rq_method message) (rq_args message),
                  PostMessage (error_response message d)], Returned)
            | Rejects (Uncloneable u) \<Rightarrow>
                ([Invoke (rq_method message) (rq_args message)], Thrown (Plain DataCloneError))
            | NeverSettles \<Rightarrow> ([Invoke (rq_method message) (rq_args message)], Pending))"
  using assms
  by (simp add: dispatch_def Let_def postMessage_return catch_block_plain
        catch_block_uncloneable split: settled.splits jsany.splits)

lemma dispatch_no_store_read: "store_reads (fst (dispatch namada message)) = []"
proof (cases "namada (rq_method message)")
  case (PValue v)
  then show ?thesis by (simp add: dispatch_not_invocable)
next
  case (PFunction f)
  then show ?thesis by (simp add: dispatch_invocable split: settled.splits jsany.splits)
qed

lemma listener_bootstrap:
  assumes "is_request e message" and "bootstrap (rq_method message)"
  shows "listener key namada store e = dispatch namada message"
  using assms by (auto simp: listener_def is_request_def bootstrap_def)

lemma listener_admitted:
  assumes "is_request e message" and "\<not> bootstrap (rq_method message)"
    and "approved store key (origin e)"
  shows "listener key namada store e =
           (StoreGet key # fst (dispatch namada message), snd (dispatch namada message))"
  using assms
  by (auto simp: listener_def is_request_def bootstrap_def approved_def
           split: settled.splits option.splits)

lemma listener_not_admitted:
  assumes "is_request e message" and "\<not> bootstrap (rq_method message)"
    and "\<not> approved store key (origin e)"
  shows "fst (listener key namada store e) = [StoreGet key]"
  using assms
  by (auto simp: listener_def is_request_def bootstrap_def approved_def
           split: settled.splits option.splits)

lemma responses_past_gate:
  assumes "is_request e message"
    and "bootstrap (rq_method message) \<or> approved store key (origin e)"
  shows "responses (fst (listener key namada store e)) =
           responses (fst (dispatch namada message))"
proof (cases "bootstrap (rq_method message)")
  case True
  with assms(1) show ?thesis by (simp add: listener_bootstrap)
next
  case False
  with assms have "approved store key (origin e)" by simp
  with assms(1) False show ?thesis by (simp add: listener_admitted)
qed

lemma demo_is_request: "is_request (demo_event orig (demo_request i m a)) (demo_request i m a)"
  by (simp add: is_request_def demo_event_def demo_request_def)

lemma demo_approved:
  "approved demo_store ''approved-origins'' (origin (demo_event ''https://app.example'' r))"
  by (simp add: approved_def demo_store_def demo_event_def)

lemma demo_not_approved:
  "\<not> approved demo_store ''approved-origins'' (origin (demo_event ''https://evil.example'' r))"
  by (simp add: approved_def demo_store_def demo_event_def)

lemma dispatch_responses_shape:
  assumes "r \<in> set (responses (fst (dispatch namada message)))"
  shows "(\<exists>v. r = return_response message v) \<or> (\<exists>err. r = error_response message err)"
proof (cases "namada (rq_method message)")
  case (PValue v)
  with assms show ?thesis by (auto simp: dispatch_not_invocable)
next
  case (PFunction f)
  with assms show ?thesis
    by (auto simp: dispatch_invocable split: settled.splits jsany.splits)
qed

lemma listener_responses_from_dispatch:
  assumes "r \<in> set (responses (fst (listener key namada store e)))"
  shows "\<exists>message. data e = Some message
           \<and> r \<in> set (responses (fst (dispatch namada message)))"
  using assms
  by (auto simp: listener_def Let_def split: option.splits if_splits settled.splits)

subsection \<open>Foreign traffic\<close>

text \<open>
  C4. A message whose body is null or absent, whose \<^verbatim>\<open>type\<close> field is missing, or whose
  \<^verbatim>\<open>type\<close> is not the request tag makes the listener do nothing at all (no read of the
  store, no call, no response) and return normally.
\<close>

theorem C4_malformed_ignored:
  assumes "data e = None
           \<or> (\<exists>m. data e = Some m \<and> rq_type m = JUndefined)
           \<or> (\<exists>m. data e = Some m \<and> rq_type m \<noteq> JStr ProxyRequestTypes_Request)"
  shows "listener key namada store e = ([], Returned)"
  using assms by (auto simp: listener_def)

theorem C4_malformed_ignored_witness:
  "listener ''approved-origins'' demo_namada demo_store
     \<lparr> data = None, origin = ''https://app.example'' \<rparr> = ([], Returned)
   \<and> listener ''approved-origins'' demo_namada demo_store
       \<lparr> data = Some \<lparr> rq_type = JUndefined, rq_id = JStr ''1'', rq_method = ''connect'',
                       rq_args = JArr [] \<rparr>,
         origin = ''https://app.example'' \<rparr> = ([], Returned)
   \<and> listener ''approved-origins'' demo_namada demo_store
       \<lparr> data = Some \<lparr> rq_type = JStr ProxyRequestTypes_Response, rq_id = JStr ''1'',
                       rq_method = ''connect'', rq_args = JArr [] \<rparr>,
         origin = ''https://app.example'' \<rparr> = ([], Returned)"
  by (intro conjI; rule C4_malformed_ignored;
      simp add: ProxyRequestTypes_Request_def ProxyRequestTypes_Response_def)

subsection \<open>Successful calls\<close>

text \<open>
  C1. A request (a message tagged as a request) whose origin is in the approved origins
  and whose method is a function of the capability object that resolves with a value
  \<open>v\<close> that the structured clone algorithm can copy makes the listener post exactly one
  response; its id is the id of the request, its result has the key \<^verbatim>\<open>return\<close> with the
  value \<open>v\<close> and no key \<^verbatim>\<open>error\<close>.
\<close>

theorem C1_success_response:
  assumes "is_request e message"
    and "approved store key (origin e)"
    and "namada (rq_method message) = PFunction f"
    and "f (rq_args message) = Resolves (Plain v)"
  shows "responses (fst (listener key namada store e)) =
           [\<lparr> rs_type = ProxyRequestTypes_Response, rs_id = rq_id message,
              rs_result = \<lparr> res_return = Some v, res_error = None \<rparr> \<rparr>]"
proof -
  have "responses (fst (listener key namada store e)) =
          responses (fst (dispatch namada message))"
    using assms(1,2) by (simp add: responses_past_gate)
  also have "\<dots> = [return_response message v]"
    using assms(3,4) by (simp add: dispatch_invocable)
  finally show ?thesis by (simp add: return_response_def)
qed

theorem C1_success_response_witness:
  "responses (fst (listener ''approved-origins'' demo_namada demo_store
      (demo_event ''https://app.example''
        (demo_request ''1'' ''queryBalance'' (JArr [JStr ''addr1'', JArr [JStr ''tok1'']]))))) =
     [\<lparr> rs_type = ProxyRequestTypes_Response, rs_id = JStr ''1'',
        rs_result = \<lparr> res_return = Some (JArr [JArr [JStr ''tok1'', JStr ''100'']]),
                      res_error = None \<rparr> \<rparr>]"
proof -
  let ?r = "demo_request ''1'' ''queryBalance'' (JArr [JStr ''addr1'', JArr [JStr ''tok1'']])"
  let ?f = "\<lambda>args::jsval. Resolves (Plain (JArr [JArr [JStr ''tok1'', JStr ''100'']]))
              :: jsany settled"
  have m: "demo_namada (rq_method ?r) = PFunction ?f"
    by (simp add: demo_namada_def demo_request_def)
  have v: "?f (rq_args ?r) = Resolves (Plain (JArr [JArr [JStr ''tok1'', JStr ''100'']]))"
    by simp
  have r: "is_request (demo_event ''https://app.example'' ?r) ?r"
    by (rule demo_is_request)
  have a: "approved demo_store ''approved-origins'' (origin (demo_event ''https://app.example'' ?r))"
    by (rule demo_approved)
  show ?thesis
    using C1_success_response [where namada = demo_namada and f = ?f, OF r a m v]
    by (simp add: demo_request_def)
qed

text \<open>
  Without the condition on the value the property fails. The method "subscribe" of the
  concrete capability object resolves with a function. The post of line 46 throws, the
  \<^verbatim>\<open>catch\<close> block posts the exception, and the one response of a call that succeeded
  has an \<^verbatim>\<open>error\<close> and no \<^verbatim>\<open>return\<close>.
\<close>

theorem C1_success_response_counterexample:
  "is_request
     (demo_event ''https://app.example'' (demo_request ''11'' ''subscribe'' (JArr [])))
     (demo_request ''11'' ''subscribe'' (JArr []))
   \<and> approved demo_store ''approved-origins''
       (origin (demo_event ''https://app.example'' (demo_request ''11'' ''subscribe'' (JArr []))))
   \<and> call (demo_namada (rq_method (demo_request ''11'' ''subscribe'' (JArr []))))
        (rq_args (demo_request ''11'' ''subscribe'' (JArr []))) =
       Resolves (Uncloneable ''unsubscribe function'')
   \<and> responses (fst (listener ''approved-origins'' demo_namada demo_store
        (demo_event ''https://app.example'' (demo_request ''11'' ''subscribe'' (JArr []))))) =
       [\<lparr> rs_type = ProxyRequestTypes_Response, rs_id = JStr ''11'',
          rs_result = \<lparr> res_return = None,
                        res_error = Some (JDOMException ''DataCloneError'') \<rparr> \<rparr>]"
proof -
  let ?m = "demo_request ''11'' ''subscribe'' (JArr [])"
  let ?e = "demo_event ''https://app.example'' ?m"
  have rq: "is_request ?e ?m"
    by (rule demo_is_request)
  have ap: "approved demo_store ''approved-origins'' (origin ?e)"
    by (rule demo_approved)
  have nb: "\<not> bootstrap (rq_method ?m)"
    by (simp add: bootstrap_def demo_request_def)
  have c: "call (demo_namada (rq_method ?m)) (rq_args ?m) =
             Resolves (Uncloneable ''unsubscribe function'')"
    by (simp add: demo_namada_def demo_request_def)
  have m: "demo_namada (rq_method ?m) =
             PFunction (\<lambda>args. Resolves (Uncloneable ''unsubscribe function''))"
    by (simp add: demo_namada_def demo_request_def)
  have d: "dispatch demo_namada ?m =
             ([Invoke (rq_method ?m) (rq_args ?m),
               PostMessage (error_response ?m DataCloneError)], Returned)"
    by (simp add: dispatch_invocable [where namada = demo_namada, OF m])
  have "responses (fst (listener ''approved-origins'' demo_namada demo_store ?e)) =
          [error_response ?m DataCloneError]"
    by (simp add: listener_admitted [OF rq nb ap] d)
  then have "responses (fst (listener ''approved-origins'' demo_namada demo_store ?e)) =
       [\<lparr> rs_type = ProxyRequestTypes_Response, rs_id = JStr ''11'',
          rs_result = \<lparr> res_return = None,
                        res_error = Some (JDOMException ''DataCloneError'') \<rparr> \<rparr>]"
    by (simp add: error_response_def DataCloneError_def demo_request_def)
  with rq ap c show ?thesis by blast
qed

subsection \<open>Requests that are dropped\<close>

text \<open>
  C2. A request whose method is neither "connect" nor "isConnected" and whose origin is
  not in the approved origins makes the listener post no response and call no method of
  the capability object: its only effect is the read of the store.
\<close>

theorem C2_unapproved_dropped:
  assumes "is_request e message"
    and "rq_method message \<noteq> ''connect''" and "rq_method message \<noteq> ''isConnected''"
    and "\<not> approved store key (origin e)"
  shows "responses (fst (listener key namada store e)) = []
         \<and> invocations (fst (listener key namada store e)) = []"
proof -
  from assms(2,3) have "\<not> bootstrap (rq_method message)"
    by (simp add: bootstrap_def)
  with assms(1,4) have "fst (listener key namada store e) = [StoreGet key]"
    by (simp add: listener_not_admitted)
  then show ?thesis by simp
qed

theorem C2_unapproved_dropped_witness:
  "responses (fst (listener ''approved-origins'' demo_namada demo_store
      (demo_event ''https://evil.example'' (demo_request ''3'' ''signTx'' (JArr []))))) = []
   \<and> invocations (fst (listener ''approved-origins'' demo_namada demo_store
      (demo_event ''https://evil.example'' (demo_request ''3'' ''signTx'' (JArr []))))) = []"
proof -
  let ?r = "demo_request ''3'' ''signTx'' (JArr [])"
  have a: "rq_method ?r \<noteq> ''connect''" and b: "rq_method ?r \<noteq> ''isConnected''"
    by (simp_all add: demo_request_def)
  have r: "is_request (demo_event ''https://evil.example'' ?r) ?r"
    by (rule demo_is_request)
  have n: "\<not> approved demo_store ''approved-origins''
             (origin (demo_event ''https://evil.example'' ?r))"
    by (rule demo_not_approved)
  show ?thesis
    by (rule C2_unapproved_dropped [OF r a b n])
qed

subsection \<open>Methods that do not exist\<close>

text \<open>
  C3. A request that is past the check of the origin (its method is one of the two exempt
  names, or its origin is approved) and whose method name is not a function of the
  capability object (a plain value, or no property at all) makes the listener post
  exactly one response; its id is the id of the request, its result has no key
  \<^verbatim>\<open>return\<close>, and its \<^verbatim>\<open>error\<close> is an Error whose message is the method name followed
  by " not found!", so the message contains the method name.
\<close>

theorem C3_method_not_found:
  assumes "is_request e message"
    and "bootstrap (rq_method message) \<or> approved store key (origin e)"
    and "namada (rq_method message) = PValue p"
  shows "\<exists>msg. responses (fst (listener key namada store e)) =
                 [\<lparr> rs_type = ProxyRequestTypes_Response, rs_id = rq_id message,
                    rs_result = \<lparr> res_return = None, res_error = Some (JError msg) \<rparr> \<rparr>]
               \<and> msg = rq_method message @ '' not found!''
               \<and> sublist (rq_method message) msg"
proof -
  have "responses (fst (listener key namada store e)) =
          responses (fst (dispatch namada message))"
    using assms(1,2) by (rule responses_past_gate)
  also have "\<dots> = [error_response message (JError (rq_method message @ '' not found!''))]"
    using assms(3) by (simp add: dispatch_not_invocable)
  finally have "responses (fst (listener key namada store e)) =
      [\<lparr> rs_type = ProxyRequestTypes_Response, rs_id = rq_id message,
         rs_result = \<lparr> res_return = None,
                       res_error = Some (JError (rq_method message @ '' not found!'')) \<rparr> \<rparr>]"
    by (simp add: error_response_def)
  moreover have "sublist (rq_method message) (rq_method message @ '' not found!'')"
    by (rule prefix_imp_sublist) simp
  ultimately show ?thesis by blast
qed

theorem C3_method_not_found_witness:
  "responses (fst (listener ''approved-origins'' demo_namada demo_store
      (demo_event ''https://app.example'' (demo_request ''2'' ''doesNotExist'' (JArr []))))) =
     [\<lparr> rs_type = ProxyRequestTypes_Response, rs_id = JStr ''2'',
        rs_result = \<lparr> res_return = None,
                      res_error = Some (JError ''doesNotExist not found!'') \<rparr> \<rparr>]
   \<and> sublist ''doesNotExist'' ''doesNotExist not found!''"
proof -
  let ?r = "demo_request ''2'' ''doesNotExist'' (JArr [])"
  have m: "demo_namada (rq_method ?r) = PValue JUndefined"
    by (simp add: demo_namada_def demo_request_def)
  have r: "is_request (demo_event ''https://app.example'' ?r) ?r"
    by (rule demo_is_request)
  have a: "bootstrap (rq_method ?r)
           \<or> approved demo_store ''approved-origins'' (origin (demo_event ''https://app.example'' ?r))"
    by (simp add: demo_approved)
  show ?thesis
    using C3_method_not_found [where namada = demo_namada, OF r a m]
    by (simp add: demo_request_def)
qed

subsection \<open>The exempt methods\<close>

text \<open>
  C5. For a request whose method is "connect" or "isConnected" the listener does not
  read the store and goes straight to the dispatch, whatever the origin and whatever the
  store holds. For a request with any other method name the listener reads the store
  once, and it reaches the dispatch if the origin is among the approved origins;
  otherwise it posts nothing and calls nothing.
\<close>

theorem C5_exempt_methods:
  assumes "is_request e message"
  shows "(rq_method message = ''connect'' \<or> rq_method message = ''isConnected'' \<longrightarrow>
            listener key namada store e = dispatch namada message
            \<and> store_reads (fst (listener key namada store e)) = [])
         \<and> (rq_method message \<noteq> ''connect'' \<and> rq_method message \<noteq> ''isConnected'' \<longrightarrow>
              store_reads (fst (listener key namada store e)) = [key]
              \<and> (if approved store key (origin e)
                  then listener key namada store e =
                         (StoreGet key # fst (dispatch namada message),
                          snd (dispatch namada message))
                  else responses (fst (listener key namada store e)) = []
                       \<and> invocations (fst (listener key namada store e)) = []))"
proof (cases "bootstrap (rq_method message)")
  case True
  with assms have "listener key namada store e = dispatch namada message"
    by (rule listener_bootstrap)
  with True show ?thesis
    by (auto simp: bootstrap_def dispatch_no_store_read)
next
  case False
  show ?thesis
  proof (cases "approved store key (origin e)")
    case True
    with assms False have "listener key namada store e =
        (StoreGet key # fst (dispatch namada message), snd (dispatch namada message))"
      by (simp add: listener_admitted)
    with False True show ?thesis
      by (simp add: bootstrap_def dispatch_no_store_read)
  next
    case unapproved: False
    with assms False have "fst (listener key namada store e) = [StoreGet key]"
      by (simp add: listener_not_admitted)
    with False unapproved show ?thesis
      by (simp add: bootstrap_def)
  qed
qed

theorem C5_exempt_methods_witness:
  "listener ''approved-origins'' demo_namada (\<lambda>k. Resolves None)
      (demo_event ''https://evil.example'' (demo_request ''7'' ''connect'' (JArr []))) =
     ([Invoke ''connect'' (JArr []),
       PostMessage \<lparr> rs_type = ProxyRequestTypes_Response, rs_id = JStr ''7'',
                     rs_result = \<lparr> res_return = Some JUndefined, res_error = None \<rparr> \<rparr>],
      Returned)
   \<and> store_reads (fst (listener ''approved-origins'' demo_namada demo_store
        (demo_event ''https://evil.example'' (demo_request ''8'' ''queryBalance'' (JArr []))))) =
       [''approved-origins'']
   \<and> responses (fst (listener ''approved-origins'' demo_namada demo_store
        (demo_event ''https://evil.example'' (demo_request ''8'' ''queryBalance'' (JArr []))))) =
       []"
proof -
  let ?c = "demo_request ''7'' ''connect'' (JArr [])"
  let ?q = "demo_request ''8'' ''queryBalance'' (JArr [])"
  have c: "is_request (demo_event ''https://evil.example'' ?c) ?c"
    by (rule demo_is_request)
  have q: "is_request (demo_event ''https://evil.example'' ?q) ?q"
    by (rule demo_is_request)
  have d: "dispatch demo_namada ?c =
             ([Invoke ''connect'' (JArr []),
               PostMessage \<lparr> rs_type = ProxyRequestTypes_Response, rs_id = JStr ''7'',
                             rs_result = \<lparr> res_return = Some JUndefined, res_error = None \<rparr> \<rparr>],
              Returned)"
    by (simp add: dispatch_def Let_def Proxy_postMessage_def demo_namada_def demo_request_def
          return_response_def)
  show ?thesis
    using C5_exempt_methods [OF c, of "''approved-origins''" demo_namada "\<lambda>k. Resolves None"]
          C5_exempt_methods [OF q, of "''approved-origins''" demo_namada demo_store]
          demo_not_approved [of ?q] d
    by (simp add: demo_request_def)
qed

subsection \<open>The shape of responses\<close>

text \<open>
  C6. In every response that the listener posts, the result object has exactly one of
  the keys \<^verbatim>\<open>return\<close> and \<^verbatim>\<open>error\<close>: either \<^verbatim>\<open>return\<close> is there and \<^verbatim>\<open>error\<close> is
  not, or \<^verbatim>\<open>error\<close> is there and \<^verbatim>\<open>return\<close> is not. (The value under the key is
  whatever the method resolved with or whatever was caught; it may be \<^verbatim>\<open>undefined\<close>.)
\<close>

theorem C6_return_xor_error:
  "\<forall>r \<in> set (responses (fst (listener key namada store e))).
      (res_return (rs_result r) \<noteq> None \<and> res_error (rs_result r) = None)
      \<or> (res_return (rs_result r) = None \<and> res_error (rs_result r) \<noteq> None)"
proof
  fix r
  assume "r \<in> set (responses (fst (listener key namada store e)))"
  then obtain message where "r \<in> set (responses (fst (dispatch namada message)))"
    using listener_responses_from_dispatch by blast
  then have "(\<exists>v. r = return_response message v) \<or> (\<exists>err. r = error_response message err)"
    by (rule dispatch_responses_shape)
  then show "(res_return (rs_result r) \<noteq> None \<and> res_error (rs_result r) = None)
             \<or> (res_return (rs_result r) = None \<and> res_error (rs_result r) \<noteq> None)"
    by (auto simp: return_response_def error_response_def)
qed

theorem C6_return_xor_error_witness:
  "error_response (demo_request ''4'' ''signTx'' (JArr [])) (JStr ''rejected by user'')
     \<in> set (responses (fst (listener ''approved-origins'' demo_namada demo_store
          (demo_event ''https://app.example'' (demo_request ''4'' ''signTx'' (JArr []))))))
   \<and> res_return (rs_result
        (error_response (demo_request ''4'' ''signTx'' (JArr [])) (JStr ''rejected by user'')))
       = None
   \<and> res_error (rs_result
        (error_response (demo_request ''4'' ''signTx'' (JArr [])) (JStr ''rejected by user'')))
       \<noteq> None"
proof -
  let ?m = "demo_request ''4'' ''signTx'' (JArr [])"
  let ?r = "error_response ?m (JStr ''rejected by user'')"
  let ?l = "listener ''approved-origins'' demo_namada demo_store
              (demo_event ''https://app.example'' ?m)"
  have rq: "is_request (demo_event ''https://app.example'' ?m) ?m"
    by (rule demo_is_request)
  have nb: "\<not> bootstrap (rq_method ?m)"
    by (simp add: bootstrap_def demo_request_def)
  have ap: "approved demo_store ''approved-origins'' (origin (demo_event ''https://app.example'' ?m))"
    by (rule demo_approved)
  have d: "dispatch demo_namada ?m = ([Invoke ''signTx'' (JArr []), PostMessage ?r], Returned)"
    by (simp add: dispatch_def Let_def catch_block_plain demo_namada_def demo_request_def)
  have mem: "?r \<in> set (responses (fst ?l))"
    by (simp add: listener_admitted [OF rq nb ap] d)
  from C6_return_xor_error [rule_format, OF mem] mem show ?thesis
    by (simp add: error_response_def)
qed

subsection \<open>Failures of the method\<close>

text \<open>
  C7. When the method of a request that is past the check of the origin throws or
  rejects with a value that the structured clone algorithm can copy, the listener posts
  exactly one response for the id of the request; its \<^verbatim>\<open>error\<close> is that very value and
  it has no key \<^verbatim>\<open>return\<close>.
\<close>

theorem C7_error_forwarded:
  assumes "is_request e message"
    and "bootstrap (rq_method message) \<or> approved store key (origin e)"
    and "namada (rq_method message) = PFunction f"
    and "f (rq_args message) = Rejects (Plain err)"
  shows "responses (fst (listener key namada store e)) =
           [\<lparr> rs_type = ProxyRequestTypes_Response, rs_id = rq_id message,
              rs_result = \<lparr> res_return = None, res_error = Some err \<rparr> \<rparr>]"
proof -
  have "responses (fst (listener key namada store e)) =
          responses (fst (dispatch namada message))"
    using assms(1,2) by (rule responses_past_gate)
  also have "\<dots> = [error_response message err]"
    using assms(3,4) by (simp add: dispatch_invocable)
  finally show ?thesis by (simp add: error_response_def)
qed

theorem C7_error_forwarded_witness:
  "responses (fst (listener ''approved-origins'' demo_namada demo_store
      (demo_event ''https://app.example'' (demo_request ''5'' ''signTx'' (JArr [JNum 1]))))) =
     [\<lparr> rs_type = ProxyRequestTypes_Response, rs_id = JStr ''5'',
        rs_result = \<lparr> res_return = None, res_error = Some (JStr ''rejected by user'') \<rparr> \<rparr>]"
proof -
  let ?m = "demo_request ''5'' ''signTx'' (JArr [JNum 1])"
  let ?f = "\<lambda>args::jsval. Rejects (Plain (JStr ''rejected by user'')) :: jsany settled"
  have rq: "is_request (demo_event ''https://app.example'' ?m) ?m"
    by (rule demo_is_request)
  have ap: "bootstrap (rq_method ?m)
            \<or> approved demo_store ''approved-origins'' (origin (demo_event ''https://app.example'' ?m))"
    by (simp add: demo_approved)
  have m: "demo_namada (rq_method ?m) = PFunction ?f"
    by (simp add: demo_namada_def demo_request_def)
  have v: "?f (rq_args ?m) = Rejects (Plain (JStr ''rejected by user''))"
    by simp
  show ?thesis
    using C7_error_forwarded [where namada = demo_namada and f = ?f, OF rq ap m v]
    by (simp add: demo_request_def)
qed

text \<open>
  Without the condition on the value the property fails. The method "signArbitrary" of
  the concrete capability object rejects with an object that holds a function. The post
  of line 56, in the \<^verbatim>\<open>catch\<close> block, throws: no response is posted for the id, and the
  exception leaves the listener.
\<close>

theorem C7_error_forwarded_counterexample:
  "is_request
     (demo_event ''https://app.example'' (demo_request ''12'' ''signArbitrary'' (JArr [])))
     (demo_request ''12'' ''signArbitrary'' (JArr []))
   \<and> approved demo_store ''approved-origins''
       (origin (demo_event ''https://app.example''
          (demo_request ''12'' ''signArbitrary'' (JArr []))))
   \<and> call (demo_namada (rq_method (demo_request ''12'' ''signArbitrary'' (JArr []))))
        (rq_args (demo_request ''12'' ''signArbitrary'' (JArr []))) =
       Rejects (Uncloneable ''error object with a retry function'')
   \<and> listener ''approved-origins'' demo_namada demo_store
        (demo_event ''https://app.example'' (demo_request ''12'' ''signArbitrary'' (JArr []))) =
       ([StoreGet ''approved-origins'', Invoke ''signArbitrary'' (JArr [])],
        Thrown (Plain (JDOMException ''DataCloneError'')))
   \<and> responses (fst (listener ''approved-origins'' demo_namada demo_store
        (demo_event ''https://app.example''
          (demo_request ''12'' ''signArbitrary'' (JArr []))))) = []"
proof -
  let ?m = "demo_request ''12'' ''signArbitrary'' (JArr [])"
  let ?e = "demo_event ''https://app.example'' ?m"
  have rq: "is_request ?e ?m"
    by (rule demo_is_request)
  have ap: "approved demo_store ''approved-origins'' (origin ?e)"
    by (rule demo_approved)
  have nb: "\<not> bootstrap (rq_method ?m)"
    by (simp add: bootstrap_def demo_request_def)
  have c: "call (demo_namada (rq_method ?m)) (rq_args ?m) =
             Rejects (Uncloneable ''error object with a retry function'')"
    by (simp add: demo_namada_def demo_request_def)
  have m: "demo_namada (rq_method ?m) =
             PFunction (\<lambda>args. Rejects (Uncloneable ''error object with a retry function''))"
    by (simp add: demo_namada_def demo_request_def)
  have d: "dispatch demo_namada ?m =
             ([Invoke (rq_method ?m) (rq_args ?m)], Thrown (Plain DataCloneError))"
    by (simp add: dispatch_invocable [where namada = demo_namada, OF m])
  have "listener ''approved-origins'' demo_namada demo_store ?e =
          ([StoreGet ''approved-origins'', Invoke (rq_method ?m) (rq_args ?m)],
           Thrown (Plain DataCloneError))"
    by (simp add: listener_admitted [OF rq nb ap] d)
  then have l: "listener ''approved-origins'' demo_namada demo_store ?e =
             ([StoreGet ''approved-origins'', Invoke ''signArbitrary'' (JArr [])],
              Thrown (Plain (JDOMException ''DataCloneError'')))"
    by (simp add: DataCloneError_def demo_request_def)
  then have "responses (fst (listener ''approved-origins'' demo_namada demo_store ?e)) = []"
    by simp
  with rq ap c l show ?thesis by blast
qed

subsection \<open>The read of the store\<close>

text \<open>
  C8. For every request whose method is not one of the two exempt names, the listener
  reads the approved origins from the store exactly once, at that delivery. The listener
  keeps nothing between deliveries, so when the store comes to hold the origin between
  two deliveries of a request, the first delivery is dropped after its read and the
  second, after its own read, reaches the dispatch.
\<close>

theorem C8_fresh_read:
  assumes "is_request e message" and "\<not> bootstrap (rq_method message)"
  shows "store_reads (fst (listener key namada store e)) = [key]
         \<and> (\<not> approved store key (origin e) \<longrightarrow> origin e \<in> set xs \<longrightarrow>
              map fst (deliveries key namada store
                         [Deliver e, StoreSet key (Resolves (Some xs)), Deliver e]) =
                [[StoreGet key], StoreGet key # fst (dispatch namada message)])"
proof (intro conjI impI)
  show "store_reads (fst (listener key namada store e)) = [key]"
  proof (cases "approved store key (origin e)")
    case True
    with assms show ?thesis
      by (simp add: listener_admitted dispatch_no_store_read)
  next
    case False
    with assms show ?thesis
      by (simp add: listener_not_admitted)
  qed
next
  assume before: "\<not> approved store key (origin e)" and after: "origin e \<in> set xs"
  let ?store' = "store(key := Resolves (Some xs))"
  from after have "approved ?store' key (origin e)"
    by (simp add: approved_def)
  with assms have "fst (listener key namada ?store' e) =
      StoreGet key # fst (dispatch namada message)"
    by (simp add: listener_admitted)
  moreover from assms before have "fst (listener key namada store e) = [StoreGet key]"
    by (simp add: listener_not_admitted)
  ultimately show "map fst (deliveries key namada store
                         [Deliver e, StoreSet key (Resolves (Some xs)), Deliver e]) =
                [[StoreGet key], StoreGet key # fst (dispatch namada message)]"
    by simp
qed

theorem C8_fresh_read_witness:
  "map fst (deliveries ''approved-origins'' demo_namada demo_store
      [Deliver (demo_event ''https://new.example'' (demo_request ''6'' ''queryBalance'' (JArr []))),
       StoreSet ''approved-origins''
         (Resolves (Some [''https://app.example'', ''https://new.example''])),
       Deliver (demo_event ''https://new.example'' (demo_request ''6'' ''queryBalance'' (JArr [])))]) =
     [[StoreGet ''approved-origins''],
      [StoreGet ''approved-origins'',
       Invoke ''queryBalance'' (JArr []),
       PostMessage \<lparr> rs_type = ProxyRequestTypes_Response, rs_id = JStr ''6'',
                     rs_result = \<lparr> res_return = Some (JArr [JArr [JStr ''tok1'', JStr ''100'']]),
                                   res_error = None \<rparr> \<rparr>]]"
proof -
  let ?m = "demo_request ''6'' ''queryBalance'' (JArr [])"
  let ?e = "demo_event ''https://new.example'' ?m"
  have rq: "is_request ?e ?m"
    by (rule demo_is_request)
  have nb: "\<not> bootstrap (rq_method ?m)"
    by (simp add: bootstrap_def demo_request_def)
  have before: "\<not> approved demo_store ''approved-origins'' (origin ?e)"
    by (simp add: approved_def demo_store_def demo_event_def)
  have after: "origin ?e \<in> set [''https://app.example'', ''https://new.example'']"
    by (simp add: demo_event_def)
  have d: "fst (dispatch demo_namada ?m) =
             [Invoke ''queryBalance'' (JArr []),
              PostMessage \<lparr> rs_type = ProxyRequestTypes_Response, rs_id = JStr ''6'',
                rs_result = \<lparr> res_return = Some (JArr [JArr [JStr ''tok1'', JStr ''100'']]),
                              res_error = None \<rparr> \<rparr>]"
    by (simp add: dispatch_def Let_def Proxy_postMessage_def demo_namada_def demo_request_def
          return_response_def)
  from C8_fresh_read [OF rq nb, of "''approved-origins''" demo_namada demo_store
                        "[''https://app.example'', ''https://new.example'']"]
  have "map fst (deliveries ''approved-origins'' demo_namada demo_store
          [Deliver ?e,
           StoreSet ''approved-origins''
             (Resolves (Some [''https://app.example'', ''https://new.example''])),
           Deliver ?e]) =
        [[StoreGet ''approved-origins''],
         StoreGet ''approved-origins'' # fst (dispatch demo_namada ?m)]"
    using before after by blast
  then show ?thesis by (simp only: d)
qed

text \<open>
  C9. When the store's \<^verbatim>\<open>get\<close> resolves with \<^verbatim>\<open>undefined\<close>, the list of approved
  origins is taken to be empty: a request whose method is not one of the two exempt names
  is dropped whatever its origin. The listener reads the store, posts nothing, calls
  nothing and returns.
\<close>

theorem C9_undefined_is_empty:
  assumes "is_request e message"
    and "rq_method message \<noteq> ''connect''" and "rq_method message \<noteq> ''isConnected''"
    and "store key = Resolves None"
  shows "listener key namada store e = ([StoreGet key], Returned)"
  using assms by (simp add: listener_def is_request_def)

theorem C9_undefined_is_empty_witness:
  "listener ''approved-origins'' demo_namada (\<lambda>k. Resolves None)
      (demo_event ''https://app.example'' (demo_request ''9'' ''queryBalance'' (JArr []))) =
     ([StoreGet ''approved-origins''], Returned)"
proof -
  let ?m = "demo_request ''9'' ''queryBalance'' (JArr [])"
  have rq: "is_request (demo_event ''https://app.example'' ?m) ?m"
    by (rule demo_is_request)
  have a: "rq_method ?m \<noteq> ''connect''" and b: "rq_method ?m \<noteq> ''isConnected''"
    by (simp_all add: demo_request_def)
  have s: "(\<lambda>k::string. Resolves None :: ApprovedOriginsStore option settled)
             ''approved-origins'' = Resolves None"
    by simp
  show ?thesis
    by (rule C9_undefined_is_empty [where store = "\<lambda>k. Resolves None", OF rq a b s])
qed

text \<open>
  C10. When the store's \<^verbatim>\<open>get\<close> rejects for a request whose method is not one of the two
  exempt names, the \<^verbatim>\<open>await\<close> of line 26 throws outside the \<^verbatim>\<open>try\<close> statement: the
  listener posts no response and calls no method, and the promise it returned is
  rejected with the store's reason.
\<close>

theorem C10_store_rejection_escapes:
  assumes "is_request e message"
    and "rq_method message \<noteq> ''connect''" and "rq_method message \<noteq> ''isConnected''"
    and "store key = Rejects reason"
  shows "listener key namada store e = ([StoreGet key], Thrown reason)
         \<and> responses (fst (listener key namada store e)) = []"
  using assms by (simp add: listener_def is_request_def)

theorem C10_store_rejection_escapes_witness:
  "listener ''approved-origins'' demo_namada (\<lambda>k. Rejects (Plain (JError ''storage unavailable'')))
      (demo_event ''https://app.example'' (demo_request ''10'' ''queryBalance'' (JArr []))) =
     ([StoreGet ''approved-origins''], Thrown (Plain (JError ''storage unavailable'')))
   \<and> responses (fst (listener ''approved-origins'' demo_namada
        (\<lambda>k. Rejects (Plain (JError ''storage unavailable'')))
        (demo_event ''https://app.example'' (demo_request ''10'' ''queryBalance'' (JArr []))))) = []"
proof -
  let ?m = "demo_request ''10'' ''queryBalance'' (JArr [])"
  have rq: "is_request (demo_event ''https://app.example'' ?m) ?m"
    by (rule demo_is_request)
  have a: "rq_method ?m \<noteq> ''connect''" and b: "rq_method ?m \<noteq> ''isConnected''"
    by (simp_all add: demo_request_def)
  have s: "(\<lambda>k::string. Rejects (Plain (JError ''storage unavailable''))
               :: ApprovedOriginsStore option settled) ''approved-origins''
             = Rejects (Plain (JError ''storage unavailable''))"
    by simp
  show ?thesis
    by (rule C10_store_rejection_escapes
          [where store = "\<lambda>k. Rejects (Plain (JError ''storage unavailable''))", OF rq a b s])
qed

end
